theory Spec2Isabelle
  imports Complex_Main "HOL-Library.Word" "HOL-Library.List_Lexorder" "HOL-Library.Multiset"
begin

section \<open>JavaScript values\<close>

text \<open>
  A JavaScript string is a sequence of 16-bit code units. String literals of the source
  are written \<open>js ''...''\<close>; all of them are ASCII.
\<close>

type_synonym jsstring = "16 word list"

definition js :: "string \<Rightarrow> jsstring" where
  "js s = map (\<lambda>c. word_of_nat (of_char c)) s"

text \<open>
  Numbers are IEEE doubles. The code only ever tests a number for truthiness, so a number
  is kept as its mathematical value, with the three values that have none. Negative zero
  is \<open>Finite 0\<close>: both zeros are falsy.
\<close>

datatype jsnumber = NaN | Finite rat | PosInfinity | NegInfinity

text \<open>
  The values a handler can meet: what \<open>JSON.parse\<close> returns, and \<open>undefined\<close> for a
  property that is not there. An object is the list of its own properties, each name once.
\<close>

datatype jsvalue =
    JUndefined
  | JNull
  | JBoolean bool
  | JNumber jsnumber
  | JString jsstring
  | JArray "jsvalue list"
  | JObject "(jsstring \<times> jsvalue) list"

text \<open>What a \<open>throw\<close> carries: the kind of error and its detail message.\<close>

datatype exn =
    TypeError jsstring
  | SyntaxError jsstring
  | StorageUnavailable jsstring
  | StorageRejected jsstring

text \<open>\<open>!v\<close> is \<open>\<not> ToBoolean v\<close>.\<close>

fun ToBoolean :: "jsvalue \<Rightarrow> bool" where
  "ToBoolean JUndefined = False"
| "ToBoolean JNull = False"
| "ToBoolean (JBoolean b) = b"
| "ToBoolean (JNumber NaN) = False"
| "ToBoolean (JNumber (Finite q)) = (q \<noteq> 0)"
| "ToBoolean (JNumber PosInfinity) = True"
| "ToBoolean (JNumber NegInfinity) = True"
| "ToBoolean (JString s) = (s \<noteq> [])"
| "ToBoolean (JArray xs) = True"
| "ToBoolean (JObject fs) = True"

fun typeof :: "jsvalue \<Rightarrow> jsstring" where
  "typeof JUndefined = js ''undefined''"
| "typeof JNull = js ''object''"
| "typeof (JBoolean b) = js ''boolean''"
| "typeof (JNumber n) = js ''number''"
| "typeof (JString s) = js ''string''"
| "typeof (JArray xs) = js ''object''"
| "typeof (JObject fs) = js ''object''"

text \<open>
  \<open>v.name\<close> for a name that is neither an array index, nor \<open>length\<close>, nor defined on a
  built-in prototype: such a read finds an own property of an object or nothing. The
  names read by this program, \<open>severity\<close> and \<open>message\<close>, are of that kind. Reading a
  property of \<open>null\<close> or \<open>undefined\<close> throws.
\<close>

fun Get :: "jsvalue \<Rightarrow> jsstring \<Rightarrow> exn + jsvalue" where
  "Get JUndefined k = Inl (TypeError (js ''Cannot read properties of undefined''))"
| "Get JNull k = Inl (TypeError (js ''Cannot read properties of null''))"
| "Get (JObject fs) k = Inr (case map_of fs k of Some v \<Rightarrow> v | None \<Rightarrow> JUndefined)"
| "Get v k = Inr JUndefined"

text \<open>
  \<open>Array.prototype.includes\<close> on an array of strings compares with SameValueZero: only a
  string equal to an element is found.
\<close>

fun includes_js :: "jsstring list \<Rightarrow> jsvalue \<Rightarrow> bool" where
  "includes_js xs (JString s) = (s \<in> set xs)"
| "includes_js xs v = False"

fun join :: "jsstring list \<Rightarrow> jsstring \<Rightarrow> jsstring" where
  "join [] sep = []"
| "join [x] sep = x"
| "join (x # y # ys) sep = x @ sep @ join (y # ys) sep"

text \<open>
  \<open>String.prototype.trim\<close> removes the WhiteSpace and LineTerminator code points of
  ECMAScript from both ends; all of them are single code units.
\<close>

definition isWhiteSpace :: "16 word \<Rightarrow> bool" where
  "isWhiteSpace c \<longleftrightarrow>
     c \<in> set [0x0009, 0x000B, 0x000C, 0x0020, 0x00A0, 0x1680, 0x202F, 0x205F, 0x3000, 0xFEFF]
     \<or> (0x2000 \<le> c \<and> c \<le> 0x200A)"

definition isLineTerminator :: "16 word \<Rightarrow> bool" where
  "isLineTerminator c \<longleftrightarrow> c \<in> set [0x000A, 0x000D, 0x2028, 0x2029]"

definition trim :: "jsstring \<Rightarrow> jsstring" where
  "trim s =
     (let ws = (\<lambda>c. isWhiteSpace c \<or> isLineTerminator c)
      in rev (dropWhile ws (rev (dropWhile ws s))))"

text \<open>\<open>v.trim()\<close>: only a string has the method.\<close>

fun call_trim :: "jsvalue \<Rightarrow> exn + jsstring" where
  "call_trim (JString s) = Inr (trim s)"
| "call_trim JUndefined = Inl (TypeError (js ''Cannot read properties of undefined''))"
| "call_trim JNull = Inl (TypeError (js ''Cannot read properties of null''))"
| "call_trim v = Inl (TypeError (js ''trim is not a function''))"

section \<open>The data model (models/log-entry.ts)\<close>

text \<open>
  TypeScript's annotations are erased at run time: the ingest handler copies
  \<open>body.severity\<close> and \<open>body.message\<close> into the entry as they are, so these two fields hold
  JavaScript values. Lemma \<open>valid_input_fields\<close> shows that they are strings whenever the
  validator accepted the payload.
\<close>

record LogEntry =
  logId :: jsstring
  timestamp :: jsstring
  severity :: jsvalue
  message :: jsvalue
  logType :: jsstring

text \<open>
  The bodies of the two handlers' responses, as the objects given to \<open>JSON.stringify\<close>.
  A field that is \<open>None\<close> is absent from the object.
\<close>

record CreateLogResponse =
  success :: bool
  logId_out :: "jsstring option"
  timestamp_out :: "jsstring option"
  message_out :: "jsstring option"

record ReadRecentResponse =
  count :: nat
  logs :: "LogEntry list"
  error_out :: "jsstring option"

record 'b response =
  statusCode :: nat
  headers :: "(jsstring \<times> jsstring) list"
  body :: 'b

text \<open>The Lambda function URL event: \<open>event.body\<close> is a string or absent.\<close>

record event =
  event_body :: "jsstring option"

section \<open>Input validation (utils/validator.ts)\<close>

definition VALID_SEVERITIES :: "jsstring list" where
  "VALID_SEVERITIES = [js ''info'', js ''warning'', js ''error'']"

record ValidationResult =
  isValid :: bool
  error :: "jsstring option"

definition invalid :: "jsstring \<Rightarrow> ValidationResult" where
  "invalid msg = \<lparr>isValid = False, error = Some msg\<rparr>"

definition validateLogInput :: "jsvalue \<Rightarrow> exn + ValidationResult" where
  "validateLogInput input =
     (if \<not> ToBoolean input \<or> typeof input \<noteq> js ''object'' then
        Inr (invalid (js ''Request body must be a valid JSON object''))
      else case Get input (js ''severity'') of
        Inl e \<Rightarrow> Inl e
      | Inr sev \<Rightarrow>
          if \<not> ToBoolean sev then
            Inr (invalid (js ''Missing required field: severity''))
          else if \<not> includes_js VALID_SEVERITIES sev then
            Inr (invalid (js ''Invalid severity. Must be one of: '' @ join VALID_SEVERITIES (js '', '')))
          else case Get input (js ''message'') of
            Inl e \<Rightarrow> Inl e
          | Inr msg \<Rightarrow>
              if \<not> ToBoolean msg then
                Inr (invalid (js ''Missing required field: message''))
              else if typeof msg \<noteq> js ''string'' then
                Inr (invalid (js ''Message must be a string''))
              else case call_trim msg of
                Inl e \<Rightarrow> Inl e
              | Inr t \<Rightarrow>
                  if length t = 0 then
                    Inr (invalid (js ''Message cannot be empty''))
                  else Inr \<lparr>isValid = True, error = None\<rparr>)"

section \<open>The Storage Engine\<close>

text \<open>
  The table holds the entries in the order of their insertion. The AWS SDK commands the
  handlers build are kept as they are built: a \<open>PutCommand\<close> with its table name and item,
  a \<open>QueryCommand\<close> with its table and index names, the value bound to \<open>:logType\<close> in the
  key condition \<open>logType = :logType\<close>, \<open>ScanIndexForward\<close> and \<open>Limit\<close>.
\<close>

type_synonym table = "LogEntry list"

datatype command =
    PutCommand jsstring LogEntry
  | QueryCommand jsstring jsstring jsstring bool nat

datatype send_output =
    PutCommandOutput
  | QueryCommandOutput "LogEntry list option"

fun Items :: "send_output \<Rightarrow> LogEntry list option" where
  "Items (QueryCommandOutput xs) = xs"
| "Items PutCommandOutput = None"

text \<open>
  Modelled from the spec: the Storage Engine (the DynamoDB table \<open>LogEntries\<close> and its
  index \<open>TimestampIndex\<close>, provisioned outside the handlers) is not part of the sources.
  Section 4.1 of the specification gives its contract: \<open>put(record)\<close> inserts a new record;
  \<open>queryRecent(group, limit)\<close> returns up to \<open>limit\<close> records whose group matches, ordered
  by \<open>occurredAt\<close> descending, an empty sequence when there is none. The index is the
  matching records in ascending order of \<open>timestamp\<close>, records of equal timestamp in
  insertion order; a descending scan reads it backwards. Strings are compared
  lexicographically.
\<close>

definition put :: "LogEntry \<Rightarrow> table \<Rightarrow> table" where
  "put r t = t @ [r]"

definition index_scan :: "jsstring \<Rightarrow> table \<Rightarrow> LogEntry list" where
  "index_scan g t = sort_key timestamp (filter (\<lambda>r. logType r = g) t)"

definition queryRecent :: "jsstring \<Rightarrow> nat \<Rightarrow> table \<Rightarrow> LogEntry list" where
  "queryRecent g limit t = take limit (rev (index_scan g t))"

text \<open>
  Modelled from the spec: \<open>dynamoDB.send\<close>, the call into the Storage Engine. Either
  operation fails on an infrastructure fault, which is an input of the model: with a fault
  the call throws it and the table is as before; without one it runs the command.
\<close>

fun dynamoDB_send :: "exn option \<Rightarrow> command \<Rightarrow> table \<Rightarrow> (exn + send_output) \<times> table" where
  "dynamoDB_send (Some e) cmd t = (Inl e, t)"
| "dynamoDB_send None (PutCommand tableName item) t = (Inr PutCommandOutput, put item t)"
| "dynamoDB_send None (QueryCommand tableName indexName g forward limit) t =
     (Inr (QueryCommandOutput
        (Some (if forward then take limit (index_scan g t) else queryRecent g limit t))), t)"

section \<open>The run-time environment of an invocation\<close>

text \<open>
  What an invocation gets from outside the sources: the environment variables, the
  platform's \<open>JSON.parse\<close> (\<open>Inl\<close> when it throws), the identifier \<open>uuidv4()\<close> returns, the
  string \<open>new Date().toISOString()\<close> returns, and the fault, if any, that the Storage
  Engine call of this invocation meets.
\<close>

record runtime =
  env_TABLE_NAME :: "jsstring option"
  env_GSI_NAME :: "jsstring option"
  JSON_parse :: "jsstring \<Rightarrow> exn + jsvalue"
  uuidv4 :: jsstring
  toISOString :: jsstring
  fault :: "exn option"

text \<open>\<open>s || d\<close> for a string that may be absent: the default replaces an absent or empty one.\<close>

fun or_default :: "jsstring option \<Rightarrow> jsstring \<Rightarrow> jsstring" where
  "or_default None d = d"
| "or_default (Some s) d = (if s = [] then d else s)"

definition TABLE_NAME :: "runtime \<Rightarrow> jsstring" where
  "TABLE_NAME rt = or_default (env_TABLE_NAME rt) []"

definition GSI_NAME :: "runtime \<Rightarrow> jsstring" where
  "GSI_NAME rt = or_default (env_GSI_NAME rt) []"

definition json_headers :: "(jsstring \<times> jsstring) list" where
  "json_headers = [(js ''Content-Type'', js ''application/json'')]"

section \<open>ReadRecent (lambdas/read-recent/index.ts)\<close>

text \<open>
  The body of the handler's \<open>try\<close> block; \<open>Inl\<close> is a throw out of it. The handler
  does not read its event. Writing to the console is left out of both handlers.
\<close>

definition ReadRecent_try ::
  "runtime \<Rightarrow> event \<Rightarrow> table \<Rightarrow> (exn + ReadRecentResponse response) \<times> table" where
  "ReadRecent_try rt ev t =
     (case dynamoDB_send (fault rt)
             (QueryCommand (TABLE_NAME rt) (GSI_NAME rt) (js ''LOG'') False 100) t of
        (Inl e, t') \<Rightarrow> (Inl e, t')
      | (Inr result, t') \<Rightarrow>
          let logs0 = (case Items result of Some items \<Rightarrow> items | None \<Rightarrow> []);
              response0 = \<lparr>count = length logs0, logs = logs0, error_out = None\<rparr>
          in (Inr \<lparr>statusCode = 200, headers = json_headers, body = response0\<rparr>, t'))"

definition ReadRecent_handler ::
  "runtime \<Rightarrow> event \<Rightarrow> table \<Rightarrow> ReadRecentResponse response \<times> table" where
  "ReadRecent_handler rt ev t =
     (case ReadRecent_try rt ev t of
        (Inr r, t') \<Rightarrow> (r, t')
      | (Inl e, t') \<Rightarrow>
          (\<lparr>statusCode = 500, headers = json_headers,
            body = \<lparr>count = 0, logs = [], error_out = Some (js ''Internal server error'')\<rparr>\<rparr>, t'))"

section \<open>Ingest (lambdas/ingest/index.ts)\<close>

definition failure :: "nat \<Rightarrow> jsstring option \<Rightarrow> CreateLogResponse response" where
  "failure status msg =
     \<lparr>statusCode = status, headers = json_headers,
      body = \<lparr>success = False, logId_out = None, timestamp_out = None, message_out = msg\<rparr>\<rparr>"

text \<open>
  The body of the handler's outer \<open>try\<close> block. The inner \<open>try\<close> around \<open>JSON.parse\<close>
  returns the 400 response itself.
\<close>

definition Ingest_try ::
  "runtime \<Rightarrow> event \<Rightarrow> table \<Rightarrow> (exn + CreateLogResponse response) \<times> table" where
  "Ingest_try rt ev t =
     (case JSON_parse rt (or_default (event_body ev) (js ''{}'')) of
        Inl parseError \<Rightarrow> (Inr (failure 400 (Some (js ''Invalid JSON in request body''))), t)
      | Inr body0 \<Rightarrow>
          (case validateLogInput body0 of
             Inl e \<Rightarrow> (Inl e, t)
           | Inr validation \<Rightarrow>
               if \<not> isValid validation then (Inr (failure 400 (error validation)), t)
               else
                 (case Get body0 (js ''severity'') of
                    Inl e \<Rightarrow> (Inl e, t)
                  | Inr sev \<Rightarrow>
                      (case Get body0 (js ''message'') of
                         Inl e \<Rightarrow> (Inl e, t)
                       | Inr msg \<Rightarrow>
                           let logEntry =
                                 \<lparr>logId = uuidv4 rt, timestamp = toISOString rt,
                                  severity = sev, message = msg, logType = js ''LOG''\<rparr>
                           in (case dynamoDB_send (fault rt) (PutCommand (TABLE_NAME rt) logEntry) t of
                                 (Inl e, t') \<Rightarrow> (Inl e, t')
                               | (Inr result, t') \<Rightarrow>
                                   (Inr \<lparr>statusCode = 200, headers = json_headers,
                                         body = \<lparr>success = True,
                                                 logId_out = Some (logId logEntry),
                                                 timestamp_out = Some (timestamp logEntry),
                                                 message_out = None\<rparr>\<rparr>, t'))))))"

definition Ingest_handler ::
  "runtime \<Rightarrow> event \<Rightarrow> table \<Rightarrow> CreateLogResponse response \<times> table" where
  "Ingest_handler rt ev t =
     (case Ingest_try rt ev t of
        (Inr r, t') \<Rightarrow> (r, t')
      | (Inl e, t') \<Rightarrow> (failure 500 (Some (js ''Internal server error'')), t'))"

section \<open>Sample invocations\<close>

text \<open>
  Concrete inputs on which the handlers are run below. \<open>sample_parse\<close> agrees with
  \<open>JSON.parse\<close> on the request bodies used here: the five JSON texts it lists, and the
  empty string and \<open>not json\<close>, on which \<open>JSON.parse\<close> throws a \<open>SyntaxError\<close>.
\<close>

definition valid_body :: jsstring where
  "valid_body =
     js ''{\"severity\":\"error\",\"message\":\"disk full\",\"logId\":\"mine\",\"timestamp\":\"1999\"}''"

definition valid_payload :: jsvalue where
  "valid_payload =
     JObject [(js ''severity'', JString (js ''error'')), (js ''message'', JString (js ''disk full'')),
              (js ''logId'', JString (js ''mine'')), (js ''timestamp'', JString (js ''1999''))]"

definition blank_body :: jsstring where
  "blank_body = js ''{\"severity\":\"info\",\"message\":\"  \"}''"

definition blank_payload :: jsvalue where
  "blank_payload =
     JObject [(js ''severity'', JString (js ''info'')), (js ''message'', JString (js ''  ''))]"

definition number_body :: jsstring where
  "number_body = js ''{\"severity\":\"info\",\"message\":42}''"

definition number_payload :: jsvalue where
  "number_payload =
     JObject [(js ''severity'', JString (js ''info'')), (js ''message'', JNumber (Finite 42))]"

definition zero_body :: jsstring where
  "zero_body = js ''{\"severity\":\"info\",\"message\":0}''"

definition zero_payload :: jsvalue where
  "zero_payload =
     JObject [(js ''severity'', JString (js ''info'')), (js ''message'', JNumber (Finite 0))]"

definition sample_parse :: "jsstring \<Rightarrow> exn + jsvalue" where
  "sample_parse s =
     (case map_of [(js ''{}'', JObject []), (valid_body, valid_payload),
                   (blank_body, blank_payload), (number_body, number_payload),
                   (zero_body, zero_payload)] s of
        Some v \<Rightarrow> Inr v
      | None \<Rightarrow> Inl (SyntaxError (js ''Unexpected token'')))"

definition sample_runtime :: runtime where
  "sample_runtime =
     \<lparr>env_TABLE_NAME = Some (js ''LogEntries''), env_GSI_NAME = Some (js ''TimestampIndex''),
      JSON_parse = sample_parse, uuidv4 = js ''17fb2d04'', toISOString = js ''2025-10-25T14:19:48.337Z'',
      fault = None\<rparr>"

definition faulty_runtime :: runtime where
  "faulty_runtime = sample_runtime\<lparr>fault := Some (StorageUnavailable (js ''throttled''))\<rparr>"

definition entry_at :: "string \<Rightarrow> string \<Rightarrow> string \<Rightarrow> LogEntry" where
  "entry_at i ts g =
     \<lparr>logId = js i, timestamp = js ts, severity = JString (js ''info''),
      message = JString (js ''m''), logType = js g\<rparr>"

definition sample_table :: table where
  "sample_table = [entry_at ''a'' ''10:00'' ''LOG'', entry_at ''b'' ''12:00'' ''AUDIT'',
                   entry_at ''c'' ''11:00'' ''LOG'']"

section \<open>Properties of the validator\<close>

lemma typeof_object_iff:
  "ToBoolean p \<and> typeof p = js ''object'' \<longleftrightarrow> (\<exists>xs. p = JArray xs) \<or> (\<exists>fs. p = JObject fs)"
  by (cases p) (simp_all add: js_def)

lemma typeof_string_iff: "typeof v = js ''string'' \<longleftrightarrow> (\<exists>s. v = JString s)"
  by (cases v) (simp_all add: js_def)

lemma includes_js_iff: "includes_js xs v \<longleftrightarrow> (\<exists>s. v = JString s \<and> s \<in> set xs)"
  by (cases v) simp_all

lemma validateLogInput_array:
  "validateLogInput (JArray xs) = Inr (invalid (js ''Missing required field: severity''))"
  by (simp add: validateLogInput_def js_def)

lemma validateLogInput_not_object:
  assumes "\<not> (ToBoolean p \<and> typeof p = js ''object'')"
  shows "validateLogInput p = Inr (invalid (js ''Request body must be a valid JSON object''))"
  using assms by (auto simp: validateLogInput_def)

lemma validateLogInput_total: "\<exists>v. validateLogInput p = Inr v"
proof (cases "ToBoolean p \<and> typeof p = js ''object''")
  case False
  then show ?thesis by (simp add: validateLogInput_not_object)
next
  case True
  then consider xs where "p = JArray xs" | fs where "p = JObject fs"
    using typeof_object_iff by blast
  then show ?thesis
  proof cases
    case 1
    then show ?thesis by (simp add: validateLogInput_array)
  next
    case 2
    show ?thesis
      unfolding 2 validateLogInput_def
      by (auto simp: typeof_string_iff split: sum.splits option.splits)
  qed
qed

lemma valid_input_fields:
  assumes "validateLogInput p = Inr v" and "isValid v"
  shows "\<exists>fs s m. p = JObject fs
           \<and> Get p (js ''severity'') = Inr (JString s) \<and> s \<in> set VALID_SEVERITIES
           \<and> Get p (js ''message'') = Inr (JString m) \<and> trim m \<noteq> []"
proof (cases "ToBoolean p \<and> typeof p = js ''object''")
  case False
  with assms show ?thesis by (auto simp: validateLogInput_not_object invalid_def)
next
  case True
  then consider xs where "p = JArray xs" | fs where "p = JObject fs"
    using typeof_object_iff by blast
  then show ?thesis
  proof cases
    case 1
    with assms show ?thesis by (auto simp: validateLogInput_array invalid_def)
  next
    case 2
    obtain sev where sev: "Get p (js ''severity'') = Inr sev"
      unfolding 2 by simp
    obtain msg where msg: "Get p (js ''message'') = Inr msg"
      unfolding 2 by simp
    from assms True have a: "ToBoolean sev" and b: "includes_js VALID_SEVERITIES sev"
      and c: "ToBoolean msg" and d: "typeof msg = js ''string''"
      by (auto simp: validateLogInput_def sev msg invalid_def split: if_splits)
    from b obtain s where s: "sev = JString s" "s \<in> set VALID_SEVERITIES"
      using includes_js_iff by blast
    from d obtain m where m: "msg = JString m"
      using typeof_string_iff by blast
    from assms True a b c d have "trim m \<noteq> []"
      by (auto simp: validateLogInput_def sev msg m invalid_def split: if_splits)
    with 2 sev msg s m show ?thesis by blast
  qed
qed

lemma validateLogInput_shape:
  assumes "validateLogInput p = Inr v"
  shows "v = \<lparr>isValid = True, error = None\<rparr> \<or> (\<exists>msg. v = invalid msg)"
  using assms
  by (auto simp: validateLogInput_def split: if_splits sum.splits)

lemma validateLogInput_rejected:
  assumes "validateLogInput p \<noteq> Inr \<lparr>isValid = True, error = None\<rparr>"
  shows "\<exists>msg. validateLogInput p = Inr (invalid msg)"
proof -
  obtain v where v: "validateLogInput p = Inr v"
    using validateLogInput_total by blast
  with assms have "v \<noteq> \<lparr>isValid = True, error = None\<rparr>" by simp
  with v show ?thesis
    using validateLogInput_shape by blast
qed

lemma validateLogInput_accepts_iff:
  "validateLogInput p = Inr \<lparr>isValid = True, error = None\<rparr> \<longleftrightarrow>
     (\<exists>fs s m. p = JObject fs
        \<and> map_of fs (js ''severity'') = Some (JString s) \<and> s \<in> set VALID_SEVERITIES
        \<and> map_of fs (js ''message'') = Some (JString m) \<and> trim m \<noteq> [])"
proof
  assume a: "validateLogInput p = Inr \<lparr>isValid = True, error = None\<rparr>"
  have "isValid \<lparr>isValid = True, error = None\<rparr>" by simp
  from valid_input_fields [OF a this]
  obtain fs s m where f: "p = JObject fs"
      "Get p (js ''severity'') = Inr (JString s)" "s \<in> set VALID_SEVERITIES"
      "Get p (js ''message'') = Inr (JString m)" "trim m \<noteq> []"
    by blast
  from f(1,2) have "map_of fs (js ''severity'') = Some (JString s)"
    by (simp split: option.splits)
  moreover from f(1,4) have "map_of fs (js ''message'') = Some (JString m)"
    by (simp split: option.splits)
  ultimately show "\<exists>fs s m. p = JObject fs
        \<and> map_of fs (js ''severity'') = Some (JString s) \<and> s \<in> set VALID_SEVERITIES
        \<and> map_of fs (js ''message'') = Some (JString m) \<and> trim m \<noteq> []"
    using f(1,3,5) by blast
next
  assume "\<exists>fs s m. p = JObject fs
        \<and> map_of fs (js ''severity'') = Some (JString s) \<and> s \<in> set VALID_SEVERITIES
        \<and> map_of fs (js ''message'') = Some (JString m) \<and> trim m \<noteq> []"
  then obtain fs s m where f: "p = JObject fs"
      "map_of fs (js ''severity'') = Some (JString s)" "s \<in> set VALID_SEVERITIES"
      "map_of fs (js ''message'') = Some (JString m)" "trim m \<noteq> []"
    by blast
  from f(3) have s: "s \<noteq> []"
    by (auto simp: VALID_SEVERITIES_def js_def)
  from f(5) have m: "m \<noteq> []"
    by (auto simp: trim_def)
  from f s m show "validateLogInput p = Inr \<lparr>isValid = True, error = None\<rparr>"
    by (simp add: validateLogInput_def)
qed

section \<open>Properties of the Storage Engine model\<close>

lemma index_scan_mset: "mset (index_scan g t) = mset (filter (\<lambda>r. logType r = g) t)"
  by (simp add: index_scan_def)

lemma index_scan_sorted: "sorted_wrt (\<lambda>a b. timestamp a \<le> timestamp b) (index_scan g t)"
proof -
  have "sorted (map timestamp (index_scan g t))"
    by (simp add: index_scan_def)
  then show ?thesis
    by (simp add: sorted_wrt_map)
qed

lemma rev_index_scan_sorted:
  "sorted_wrt (\<lambda>a b. timestamp b \<le> timestamp a) (rev (index_scan g t))"
  using index_scan_sorted [of g t] by (simp add: sorted_wrt_rev)

lemma queryRecent_length:
  "length (queryRecent g n t) = min n (length (filter (\<lambda>r. logType r = g) t))"
proof -
  have "length (index_scan g t) = length (filter (\<lambda>r. logType r = g) t)"
    by (simp add: index_scan_def)
  then show ?thesis
    by (simp add: queryRecent_def min.commute)
qed

lemma queryRecent_sorted:
  "sorted_wrt (\<lambda>a b. timestamp b \<le> timestamp a) (queryRecent g n t)"
  unfolding queryRecent_def using rev_index_scan_sorted by (rule sorted_wrt_take)

lemma queryRecent_split:
  "mset (filter (\<lambda>r. logType r = g) t)
     = mset (queryRecent g n t) + mset (drop n (rev (index_scan g t)))"
proof -
  let ?L = "rev (index_scan g t)"
  have "mset (take n ?L @ drop n ?L) = mset (take n ?L) + mset (drop n ?L)"
    by (rule mset_append)
  then have "mset ?L = mset (take n ?L) + mset (drop n ?L)"
    by (simp only: append_take_drop_id)
  moreover have "mset ?L = mset (filter (\<lambda>r. logType r = g) t)"
    by (simp only: mset_rev index_scan_mset)
  ultimately show ?thesis
    by (simp only: queryRecent_def)
qed

lemma queryRecent_subset:
  "mset (queryRecent g n t) \<subseteq># mset (filter (\<lambda>r. logType r = g) t)"
  by (simp only: queryRecent_split [of g t n] mset_subset_eq_add_left)

lemma queryRecent_set:
  assumes "x \<in> set (queryRecent g n t)"
  shows "x \<in> set t \<and> logType x = g"
proof -
  from assms have "x \<in># mset (queryRecent g n t)" by simp
  then have "x \<in># mset (filter (\<lambda>r. logType r = g) t)"
    using queryRecent_subset [of g n t] by (meson mset_subset_eqD)
  then show ?thesis by simp
qed

lemma queryRecent_most_recent:
  assumes "x \<in># mset (filter (\<lambda>r. logType r = g) t) - mset (queryRecent g n t)"
      and "y \<in> set (queryRecent g n t)"
  shows "timestamp x \<le> timestamp y"
proof -
  let ?L = "rev (index_scan g t)"
  have "mset (filter (\<lambda>r. logType r = g) t) - mset (queryRecent g n t) = mset (drop n ?L)"
    by (simp only: queryRecent_split [of g t n] add_diff_cancel_left')
  with assms(1) have x: "x \<in> set (drop n ?L)" by simp
  from assms(2) have y: "y \<in> set (take n ?L)" by (simp add: queryRecent_def)
  have "sorted_wrt (\<lambda>a b. timestamp b \<le> timestamp a) (take n ?L @ drop n ?L)"
    using rev_index_scan_sorted [of g t] by (simp only: append_take_drop_id)
  then have "\<forall>a\<in>set (take n ?L). \<forall>b\<in>set (drop n ?L). timestamp b \<le> timestamp a"
    unfolding sorted_wrt_append by blast
  then show ?thesis
    using x y by blast
qed

section \<open>Properties of the handlers\<close>

lemma ReadRecent_handler_ok:
  assumes "fault rt = None"
  shows "ReadRecent_handler rt ev t =
           (\<lparr>statusCode = 200, headers = json_headers,
             body = \<lparr>count = length (queryRecent (js ''LOG'') 100 t),
                     logs = queryRecent (js ''LOG'') 100 t, error_out = None\<rparr>\<rparr>, t)"
  using assms by (simp add: ReadRecent_handler_def ReadRecent_try_def Let_def)

lemma ReadRecent_handler_fault:
  assumes "fault rt = Some e"
  shows "ReadRecent_handler rt ev t =
           (\<lparr>statusCode = 500, headers = json_headers,
             body = \<lparr>count = 0, logs = [], error_out = Some (js ''Internal server error'')\<rparr>\<rparr>, t)"
  using assms by (simp add: ReadRecent_handler_def ReadRecent_try_def Let_def)

lemma Ingest_handler_parse_error:
  assumes "JSON_parse rt (or_default (event_body ev) (js ''{}'')) = Inl e"
  shows "Ingest_handler rt ev t = (failure 400 (Some (js ''Invalid JSON in request body'')), t)"
  using assms by (simp add: Ingest_handler_def Ingest_try_def)

lemma Ingest_handler_invalid:
  assumes "JSON_parse rt (or_default (event_body ev) (js ''{}'')) = Inr p"
      and "validateLogInput p = Inr v" and "\<not> isValid v"
  shows "Ingest_handler rt ev t = (failure 400 (error v), t)"
  using assms by (simp add: Ingest_handler_def Ingest_try_def)

lemma Ingest_handler_valid:
  assumes "JSON_parse rt (or_default (event_body ev) (js ''{}'')) = Inr p"
      and "validateLogInput p = Inr v" and "isValid v"
      and "Get p (js ''severity'') = Inr sev" and "Get p (js ''message'') = Inr msg"
  shows "Ingest_handler rt ev t =
           (case fault rt of
              Some e \<Rightarrow> (failure 500 (Some (js ''Internal server error'')), t)
            | None \<Rightarrow>
                (\<lparr>statusCode = 200, headers = json_headers,
                  body = \<lparr>success = True, logId_out = Some (uuidv4 rt),
                          timestamp_out = Some (toISOString rt), message_out = None\<rparr>\<rparr>,
                 t @ [\<lparr>logId = uuidv4 rt, timestamp = toISOString rt, severity = sev,
                       message = msg, logType = js ''LOG''\<rparr>]))"
  using assms
  by (simp add: Ingest_handler_def Ingest_try_def Let_def put_def split: option.splits)

section \<open>The sample invocations, evaluated\<close>

lemma sample_recent:
  "queryRecent (js ''LOG'') 100 sample_table
     = [entry_at ''c'' ''11:00'' ''LOG'', entry_at ''a'' ''10:00'' ''LOG'']"
  by (simp add: queryRecent_def index_scan_def sample_table_def entry_at_def js_def)

lemma sample_parse_valid:
  "JSON_parse sample_runtime (or_default (event_body \<lparr>event_body = Some valid_body\<rparr>) (js ''{}''))
     = Inr valid_payload"
  by (simp add: sample_runtime_def sample_parse_def valid_body_def js_def)

lemma faulty_parse_valid:
  "JSON_parse faulty_runtime (or_default (event_body \<lparr>event_body = Some valid_body\<rparr>) (js ''{}''))
     = Inr valid_payload"
  by (simp add: faulty_runtime_def sample_runtime_def sample_parse_def valid_body_def js_def)

lemma validate_valid_payload:
  "validateLogInput valid_payload = Inr \<lparr>isValid = True, error = None\<rparr>"
  by (simp add: validateLogInput_def valid_payload_def VALID_SEVERITIES_def trim_def
      isWhiteSpace_def isLineTerminator_def js_def)

lemma sample_ingest_valid:
  "Ingest_handler sample_runtime \<lparr>event_body = Some valid_body\<rparr> sample_table =
     (\<lparr>statusCode = 200, headers = json_headers,
       body = \<lparr>success = True, logId_out = Some (js ''17fb2d04''),
               timestamp_out = Some (js ''2025-10-25T14:19:48.337Z''), message_out = None\<rparr>\<rparr>,
      sample_table @ [\<lparr>logId = js ''17fb2d04'', timestamp = js ''2025-10-25T14:19:48.337Z'',
                       severity = JString (js ''error''), message = JString (js ''disk full''),
                       logType = js ''LOG''\<rparr>])"
proof -
  have s: "Get valid_payload (js ''severity'') = Inr (JString (js ''error''))"
    by (simp add: valid_payload_def js_def)
  have m: "Get valid_payload (js ''message'') = Inr (JString (js ''disk full''))"
    by (simp add: valid_payload_def js_def)
  have "isValid \<lparr>isValid = True, error = None\<rparr>" by simp
  from Ingest_handler_valid [OF sample_parse_valid validate_valid_payload this s m, of sample_table]
  show ?thesis
    by (simp add: sample_runtime_def)
qed

lemma validateLogInput_examples:
  "validateLogInput JNull = Inr (invalid (js ''Request body must be a valid JSON object''))"
  "validateLogInput (JString (js ''info'')) = Inr (invalid (js ''Request body must be a valid JSON object''))"
  "validateLogInput (JObject [(js ''message'', JString (js ''m''))])
     = Inr (invalid (js ''Missing required field: severity''))"
  "validateLogInput (JObject [(js ''severity'', JString (js ''critical'')), (js ''message'', JString (js ''m''))])
     = Inr (invalid (js ''Invalid severity. Must be one of: info, warning, error''))"
  "validateLogInput (JObject [(js ''severity'', JString (js ''info''))])
     = Inr (invalid (js ''Missing required field: message''))"
  "validateLogInput number_payload = Inr (invalid (js ''Message must be a string''))"
  "validateLogInput blank_payload = Inr (invalid (js ''Message cannot be empty''))"
  by (simp_all add: validateLogInput_def number_payload_def blank_payload_def VALID_SEVERITIES_def
      trim_def isWhiteSpace_def isLineTerminator_def js_def)

lemma sample_parse_facts:
  "JSON_parse sample_runtime (js ''{}'') = Inr (JObject [])"
  "JSON_parse sample_runtime (js ''not json'') = Inl (SyntaxError (js ''Unexpected token''))"
  "JSON_parse sample_runtime [] = Inl (SyntaxError (js ''Unexpected token''))"
  by (simp_all add: sample_runtime_def sample_parse_def zero_body_def number_body_def
        valid_body_def blank_body_def js_def)

lemma validateLogInput_nontext_message:
  assumes "map_of fs (js ''severity'') = Some (JString s)" and "s \<in> set VALID_SEVERITIES"
      and "map_of fs (js ''message'') = Some m" and "typeof m \<noteq> js ''string''"
  shows "validateLogInput (JObject fs) =
           Inr (invalid (if ToBoolean m then js ''Message must be a string''
                         else js ''Missing required field: message''))"
proof -
  from assms(2) have "s \<noteq> []"
    by (auto simp: VALID_SEVERITIES_def js_def)
  with assms show ?thesis
    by (simp add: validateLogInput_def)
qed

section \<open>The claims\<close>

text \<open>
  Claim C1. Whatever the table holds, when the query meets no fault the recent-records
  handler answers 200 with entries of the table whose \<open>logType\<close> is \<open>LOG\<close>, each
  no more often than the table holds it, ordered by \<open>timestamp\<close> descending, at most
  100 of them: all of them when there are at most 100, and otherwise the 100 most recent,
  since every matching entry left out is no later than every entry returned. The
  table is not changed.
\<close>

theorem recent_records_sorted_bounded:
  assumes "fault rt = None"
  shows "statusCode (fst (ReadRecent_handler rt ev t)) = 200
       \<and> length (logs (body (fst (ReadRecent_handler rt ev t)))) \<le> 100
       \<and> length (logs (body (fst (ReadRecent_handler rt ev t))))
           = min 100 (length (filter (\<lambda>r. logType r = js ''LOG'') t))
       \<and> (\<forall>x \<in> set (logs (body (fst (ReadRecent_handler rt ev t)))).
            x \<in> set t \<and> logType x = js ''LOG'')
       \<and> mset (logs (body (fst (ReadRecent_handler rt ev t))))
           \<subseteq># mset (filter (\<lambda>r. logType r = js ''LOG'') t)
       \<and> sorted_wrt (\<lambda>a b. timestamp b \<le> timestamp a)
           (logs (body (fst (ReadRecent_handler rt ev t))))
       \<and> (\<forall>x \<in># mset (filter (\<lambda>r. logType r = js ''LOG'') t)
                     - mset (logs (body (fst (ReadRecent_handler rt ev t)))).
            \<forall>y \<in> set (logs (body (fst (ReadRecent_handler rt ev t)))).
              timestamp x \<le> timestamp y)
       \<and> snd (ReadRecent_handler rt ev t) = t"
proof -
  have eq: "logs (body (fst (ReadRecent_handler rt ev t))) = queryRecent (js ''LOG'') 100 t"
    by (simp add: ReadRecent_handler_ok [OF assms])
  have st: "statusCode (fst (ReadRecent_handler rt ev t)) = 200"
    by (simp add: ReadRecent_handler_ok [OF assms])
  have sn: "snd (ReadRecent_handler rt ev t) = t"
    by (simp add: ReadRecent_handler_ok [OF assms])
  have len: "length (queryRecent (js ''LOG'') 100 t)
               = min 100 (length (filter (\<lambda>r. logType r = js ''LOG'') t))"
    by (rule queryRecent_length)
  then have le: "length (queryRecent (js ''LOG'') 100 t) \<le> 100"
    by simp
  show ?thesis
    unfolding eq
    using st sn len le queryRecent_subset [of "js ''LOG''" 100 t]
      queryRecent_sorted [of "js ''LOG''" 100 t]
      queryRecent_most_recent [of _ "js ''LOG''" t 100]
      queryRecent_set [of _ "js ''LOG''" 100 t]
    by blast
qed

theorem recent_records_sorted_bounded_witness:
  "fault sample_runtime = None
   \<and> logs (body (fst (ReadRecent_handler sample_runtime \<lparr>event_body = None\<rparr> sample_table)))
       = [entry_at ''c'' ''11:00'' ''LOG'', entry_at ''a'' ''10:00'' ''LOG'']
   \<and> length (logs (body (fst (ReadRecent_handler sample_runtime \<lparr>event_body = None\<rparr> sample_table)))) \<le> 100
   \<and> sorted_wrt (\<lambda>a b. timestamp b \<le> timestamp a)
         (logs (body (fst (ReadRecent_handler sample_runtime \<lparr>event_body = None\<rparr> sample_table))))"
proof -
  have f: "fault sample_runtime = None"
    by (simp add: sample_runtime_def)
  have l: "logs (body (fst (ReadRecent_handler sample_runtime \<lparr>event_body = None\<rparr> sample_table)))
       = [entry_at ''c'' ''11:00'' ''LOG'', entry_at ''a'' ''10:00'' ''LOG'']"
    by (simp add: ReadRecent_handler_ok [OF f] sample_recent)
  show ?thesis
    using f l recent_records_sorted_bounded [OF f, of "\<lparr>event_body = None\<rparr>" sample_table]
    by blast
qed

text \<open>
  Claim C2. Whenever validation fails, that is, on every parsed payload the validator does
  not accept (a payload that is not an object, a missing or invalid severity, a missing,
  non-text or whitespace-only message), the ingest handler answers 400 with
  \<open>success: false\<close> and a reason, and sends nothing to the Storage Engine: the table is
  the one it was given. Lemma \<open>validateLogInput_accepts_iff\<close> says which payloads are
  accepted, and \<open>validateLogInput_examples\<close> runs the validator on one payload of each
  kind the claim lists.
\<close>

theorem ingest_rejects_without_write:
  assumes "JSON_parse rt (or_default (event_body ev) (js ''{}'')) = Inr payload"
      and "validateLogInput payload \<noteq> Inr \<lparr>isValid = True, error = None\<rparr>"
  shows "statusCode (fst (Ingest_handler rt ev t)) = 400
       \<and> success (body (fst (Ingest_handler rt ev t))) = False
       \<and> message_out (body (fst (Ingest_handler rt ev t))) \<noteq> None
       \<and> snd (Ingest_handler rt ev t) = t"
proof -
  obtain msg where "validateLogInput payload = Inr (invalid msg)"
    using validateLogInput_rejected [OF assms(2)] by blast
  then have "Ingest_handler rt ev t = (failure 400 (error (invalid msg)), t)"
    using assms(1) by (simp add: Ingest_handler_invalid invalid_def)
  then show ?thesis
    by (simp add: failure_def invalid_def)
qed

theorem ingest_rejects_without_write_witness:
  "JSON_parse sample_runtime (or_default (event_body \<lparr>event_body = Some blank_body\<rparr>) (js ''{}''))
     = Inr blank_payload
   \<and> validateLogInput blank_payload = Inr (invalid (js ''Message cannot be empty''))
   \<and> success (body (fst (Ingest_handler sample_runtime \<lparr>event_body = Some blank_body\<rparr> sample_table))) = False
   \<and> snd (Ingest_handler sample_runtime \<lparr>event_body = Some blank_body\<rparr> sample_table) = sample_table"
proof -
  have p: "JSON_parse sample_runtime (or_default (event_body \<lparr>event_body = Some blank_body\<rparr>) (js ''{}''))
             = Inr blank_payload"
    by (simp add: sample_runtime_def sample_parse_def blank_body_def valid_body_def js_def)
  have v: "validateLogInput blank_payload = Inr (invalid (js ''Message cannot be empty''))"
    by (simp add: validateLogInput_def blank_payload_def VALID_SEVERITIES_def trim_def
        isWhiteSpace_def isLineTerminator_def js_def)
  then have n: "validateLogInput blank_payload \<noteq> Inr \<lparr>isValid = True, error = None\<rparr>"
    by (simp add: invalid_def)
  show ?thesis
    using p v ingest_rejects_without_write [OF p n, of sample_table] by simp
qed

text \<open>
  Claim C3. Whatever the request payload, a successful ingest call appends exactly one
  entry to the table; its \<open>logId\<close> is the identifier the generator returned and its
  \<open>timestamp\<close> is the string the clock returned, and these are the values reported to
  the caller. The sample run has a payload that supplies \<open>logId\<close> and \<open>timestamp\<close>
  of its own; they are not used.
\<close>

theorem ingest_ids_server_generated:
  assumes "success (body (fst (Ingest_handler rt ev t)))"
  shows "snd (Ingest_handler rt ev t) = t @ [last (snd (Ingest_handler rt ev t))]
       \<and> logId (last (snd (Ingest_handler rt ev t))) = uuidv4 rt
       \<and> timestamp (last (snd (Ingest_handler rt ev t))) = toISOString rt
       \<and> logId_out (body (fst (Ingest_handler rt ev t))) = Some (uuidv4 rt)
       \<and> timestamp_out (body (fst (Ingest_handler rt ev t))) = Some (toISOString rt)"
proof (cases "JSON_parse rt (or_default (event_body ev) (js ''{}''))")
  case (Inl e)
  with assms show ?thesis
    by (simp add: Ingest_handler_parse_error failure_def)
next
  case (Inr p)
  obtain v where v: "validateLogInput p = Inr v"
    using validateLogInput_total by blast
  show ?thesis
  proof (cases "isValid v")
    case False
    with assms Inr v show ?thesis
      by (simp add: Ingest_handler_invalid failure_def)
  next
    case True
    obtain sev msg where g: "Get p (js ''severity'') = Inr sev" "Get p (js ''message'') = Inr msg"
      using valid_input_fields [OF v True] by blast
    note h = Ingest_handler_valid [OF Inr v True g, of t]
    show ?thesis
    proof (cases "fault rt")
      case (Some e)
      with assms h show ?thesis by (simp add: failure_def)
    next
      case None
      with h show ?thesis by simp
    qed
  qed
qed

theorem ingest_ids_server_generated_witness:
  "success (body (fst (Ingest_handler sample_runtime \<lparr>event_body = Some valid_body\<rparr> sample_table)))
   \<and> Get valid_payload (js ''logId'') = Inr (JString (js ''mine''))
   \<and> Get valid_payload (js ''timestamp'') = Inr (JString (js ''1999''))
   \<and> logId (last (snd (Ingest_handler sample_runtime \<lparr>event_body = Some valid_body\<rparr> sample_table)))
       = js ''17fb2d04''
   \<and> timestamp (last (snd (Ingest_handler sample_runtime \<lparr>event_body = Some valid_body\<rparr> sample_table)))
       = js ''2025-10-25T14:19:48.337Z''"
proof -
  have s: "success (body (fst (Ingest_handler sample_runtime \<lparr>event_body = Some valid_body\<rparr> sample_table)))"
    by (simp add: sample_ingest_valid)
  have a: "Get valid_payload (js ''logId'') = Inr (JString (js ''mine''))"
    by (simp add: valid_payload_def js_def)
  have b: "Get valid_payload (js ''timestamp'') = Inr (JString (js ''1999''))"
    by (simp add: valid_payload_def js_def)
  have u: "uuidv4 sample_runtime = js ''17fb2d04''"
    and c: "toISOString sample_runtime = js ''2025-10-25T14:19:48.337Z''"
    by (simp_all add: sample_runtime_def)
  show ?thesis
    using s a b u c ingest_ids_server_generated [OF s] by simp
qed

text \<open>
  Claim C4, as amended. For an object payload with a valid severity whose \<open>message\<close> is
  present and not a string, the ingest handler answers 400 with \<open>Message must be a
  string\<close> when the message is truthy (\<open>true\<close>, a non-zero number, an array, an
  object), and with \<open>Missing required field: message\<close> when it is falsy (\<open>null\<close>,
  \<open>false\<close>, zero, \<open>NaN\<close>): the test \<open>!input.message\<close> runs before the type test.
  The table is not changed.
\<close>

theorem nontext_message_error:
  assumes "JSON_parse rt (or_default (event_body ev) (js ''{}'')) = Inr (JObject fs)"
      and "map_of fs (js ''severity'') = Some (JString s)" and "s \<in> set VALID_SEVERITIES"
      and "map_of fs (js ''message'') = Some m" and "typeof m \<noteq> js ''string''"
  shows "Ingest_handler rt ev t =
           (failure 400 (Some (if ToBoolean m then js ''Message must be a string''
                               else js ''Missing required field: message'')), t)"
proof -
  note v = validateLogInput_nontext_message [OF assms(2-5)]
  have "\<not> isValid (invalid (if ToBoolean m then js ''Message must be a string''
                         else js ''Missing required field: message''))"
    by (simp add: invalid_def)
  from Ingest_handler_invalid [OF assms(1) v this, of t]
  show ?thesis
    by (simp add: invalid_def)
qed

theorem nontext_message_error_witness:
  "JSON_parse sample_runtime (or_default (event_body \<lparr>event_body = Some number_body\<rparr>) (js ''{}''))
     = Inr number_payload
   \<and> typeof (JNumber (Finite 42)) \<noteq> js ''string''
   \<and> ToBoolean (JNumber (Finite 42))
   \<and> Ingest_handler sample_runtime \<lparr>event_body = Some number_body\<rparr> sample_table =
        (failure 400 (Some (js ''Message must be a string'')), sample_table)"
proof -
  have p: "JSON_parse sample_runtime (or_default (event_body \<lparr>event_body = Some number_body\<rparr>) (js ''{}''))
     = Inr (JObject [(js ''severity'', JString (js ''info'')), (js ''message'', JNumber (Finite 42))])"
    by (simp add: sample_runtime_def sample_parse_def number_body_def number_payload_def
        valid_body_def blank_body_def js_def)
  have s: "map_of [(js ''severity'', JString (js ''info'')), (js ''message'', JNumber (Finite 42))]
             (js ''severity'') = Some (JString (js ''info''))"
    by simp
  have i: "js ''info'' \<in> set VALID_SEVERITIES"
    by (simp add: VALID_SEVERITIES_def)
  have m: "map_of [(js ''severity'', JString (js ''info'')), (js ''message'', JNumber (Finite 42))]
             (js ''message'') = Some (JNumber (Finite 42))"
    by (simp add: js_def)
  have ty: "typeof (JNumber (Finite 42)) \<noteq> js ''string''"
    by (simp add: js_def)
  show ?thesis
    using p ty nontext_message_error [OF p s i m ty, of sample_table]
    by (simp add: number_payload_def)
qed

text \<open>
  The claim as it was stated fails for the payload \<open>{"severity":"info","message":0}\<close>:
  the message is present and is not a string, and the answer is \<open>Missing required
  field: message\<close>.
\<close>

theorem nontext_message_counterexample:
  "JSON_parse sample_runtime (or_default (event_body \<lparr>event_body = Some zero_body\<rparr>) (js ''{}''))
     = Inr zero_payload
   \<and> Get zero_payload (js ''severity'') = Inr (JString (js ''info''))
   \<and> Get zero_payload (js ''message'') = Inr (JNumber (Finite 0))
   \<and> typeof (JNumber (Finite 0)) \<noteq> js ''string''
   \<and> validateLogInput zero_payload = Inr (invalid (js ''Missing required field: message''))
   \<and> Ingest_handler sample_runtime \<lparr>event_body = Some zero_body\<rparr> sample_table =
        (failure 400 (Some (js ''Missing required field: message'')), sample_table)
   \<and> js ''Missing required field: message'' \<noteq> js ''Message must be a string''"
proof -
  have p: "JSON_parse sample_runtime (or_default (event_body \<lparr>event_body = Some zero_body\<rparr>) (js ''{}''))
     = Inr zero_payload"
    by (simp add: sample_runtime_def sample_parse_def zero_body_def number_body_def
        valid_body_def blank_body_def js_def)
  have v: "validateLogInput zero_payload = Inr (invalid (js ''Missing required field: message''))"
    by (simp add: validateLogInput_def zero_payload_def VALID_SEVERITIES_def js_def)
  have n: "\<not> isValid (invalid (js ''Missing required field: message''))"
    by (simp add: invalid_def)
  have h: "Ingest_handler sample_runtime \<lparr>event_body = Some zero_body\<rparr> sample_table =
        (failure 400 (Some (js ''Missing required field: message'')), sample_table)"
    using Ingest_handler_invalid [OF p v n, of sample_table] by (simp add: invalid_def)
  have g: "Get zero_payload (js ''severity'') = Inr (JString (js ''info''))"
      "Get zero_payload (js ''message'') = Inr (JNumber (Finite 0))"
    by (simp_all add: zero_payload_def js_def)
  have d: "typeof (JNumber (Finite 0)) \<noteq> js ''string''"
      "js ''Missing required field: message'' \<noteq> js ''Message must be a string''"
    by (simp_all add: js_def)
  show ?thesis
    using p v h g d by blast
qed

text \<open>
  Claim C5. When the payload parses and is valid, so that the \<open>PutCommand\<close> is sent,
  and the Storage Engine call fails with any error \<open>e\<close>, the ingest handler answers 500
  with \<open>success: false\<close> and the message \<open>Internal server error\<close>. The whole response
  is this fixed value: nothing of \<open>e\<close> is in it.
\<close>

theorem ingest_storage_fault_generic:
  assumes "JSON_parse rt (or_default (event_body ev) (js ''{}'')) = Inr payload"
      and "validateLogInput payload = Inr v" and "isValid v"
      and "fault rt = Some e"
  shows "Ingest_handler rt ev t =
           (\<lparr>statusCode = 500, headers = json_headers,
             body = \<lparr>success = False, logId_out = None, timestamp_out = None,
                     message_out = Some (js ''Internal server error'')\<rparr>\<rparr>, t)"
proof -
  obtain sev msg where g: "Get payload (js ''severity'') = Inr sev"
      "Get payload (js ''message'') = Inr msg"
    using valid_input_fields [OF assms(2,3)] by blast
  show ?thesis
    using Ingest_handler_valid [OF assms(1-3) g, of t] assms(4)
    by (simp add: failure_def)
qed

theorem ingest_storage_fault_generic_witness:
  "JSON_parse faulty_runtime (or_default (event_body \<lparr>event_body = Some valid_body\<rparr>) (js ''{}''))
     = Inr valid_payload
   \<and> validateLogInput valid_payload = Inr \<lparr>isValid = True, error = None\<rparr>
   \<and> fault faulty_runtime = Some (StorageUnavailable (js ''throttled''))
   \<and> Ingest_handler faulty_runtime \<lparr>event_body = Some valid_body\<rparr> sample_table =
           (\<lparr>statusCode = 500, headers = json_headers,
             body = \<lparr>success = False, logId_out = None, timestamp_out = None,
                     message_out = Some (js ''Internal server error'')\<rparr>\<rparr>, sample_table)"
proof -
  have f: "fault faulty_runtime = Some (StorageUnavailable (js ''throttled''))"
    by (simp add: faulty_runtime_def)
  have i: "isValid \<lparr>isValid = True, error = None\<rparr>" by simp
  show ?thesis
    using faulty_parse_valid validate_valid_payload f
      ingest_storage_fault_generic [OF faulty_parse_valid validate_valid_payload i f, of sample_table]
    by simp
qed

text \<open>
  Claim C6. When the query fails with any error, the recent-records handler returns a
  response, with status 500 and the body \<open>{count: 0, logs: [], error: "Internal server
  error"}\<close>.
\<close>

theorem recent_storage_fault_shape:
  assumes "fault rt = Some e"
  shows "fst (ReadRecent_handler rt ev t) =
           \<lparr>statusCode = 500, headers = json_headers,
            body = \<lparr>count = 0, logs = [], error_out = Some (js ''Internal server error'')\<rparr>\<rparr>"
  by (simp add: ReadRecent_handler_fault [OF assms])

theorem recent_storage_fault_shape_witness:
  "fault faulty_runtime = Some (StorageUnavailable (js ''throttled''))
   \<and> fst (ReadRecent_handler faulty_runtime \<lparr>event_body = None\<rparr> sample_table) =
           \<lparr>statusCode = 500, headers = json_headers,
            body = \<lparr>count = 0, logs = [], error_out = Some (js ''Internal server error'')\<rparr>\<rparr>"
proof -
  have f: "fault faulty_runtime = Some (StorageUnavailable (js ''throttled''))"
    by (simp add: faulty_runtime_def)
  show ?thesis
    using f recent_storage_fault_shape [OF f, of "\<lparr>event_body = None\<rparr>" sample_table] by simp
qed

text \<open>
  Claim C7. On an empty table, when the query meets no fault, the recent-records handler
  answers 200 with \<open>count\<close> 0, an empty list and no \<open>error\<close> field.
\<close>

theorem recent_empty_store:
  assumes "fault rt = None"
  shows "ReadRecent_handler rt ev [] =
           (\<lparr>statusCode = 200, headers = json_headers,
             body = \<lparr>count = 0, logs = [], error_out = None\<rparr>\<rparr>, [])"
  by (simp add: ReadRecent_handler_ok [OF assms] queryRecent_def index_scan_def)

theorem recent_empty_store_witness:
  "fault sample_runtime = None
   \<and> ReadRecent_handler sample_runtime \<lparr>event_body = None\<rparr> [] =
           (\<lparr>statusCode = 200, headers = json_headers,
             body = \<lparr>count = 0, logs = [], error_out = None\<rparr>\<rparr>, [])"
proof -
  have f: "fault sample_runtime = None"
    by (simp add: sample_runtime_def)
  show ?thesis
    using f recent_empty_store [OF f, of "\<lparr>event_body = None\<rparr>"] by simp
qed

text \<open>
  Claim C8. In every response of the recent-records handler, with or without a fault,
  \<open>count\<close> is the length of \<open>logs\<close>.
\<close>

theorem recent_count_is_length:
  "count (body (fst (ReadRecent_handler rt ev t)))
     = length (logs (body (fst (ReadRecent_handler rt ev t))))"
proof (cases "fault rt")
  case None
  then show ?thesis by (simp add: ReadRecent_handler_ok)
next
  case (Some e)
  then show ?thesis by (simp add: ReadRecent_handler_fault)
qed

theorem recent_count_is_length_witness:
  "count (body (fst (ReadRecent_handler sample_runtime \<lparr>event_body = None\<rparr> sample_table))) = 2
   \<and> length (logs (body (fst (ReadRecent_handler sample_runtime \<lparr>event_body = None\<rparr> sample_table)))) = 2
   \<and> count (body (fst (ReadRecent_handler faulty_runtime \<lparr>event_body = None\<rparr> sample_table))) = 0
   \<and> length (logs (body (fst (ReadRecent_handler faulty_runtime \<lparr>event_body = None\<rparr> sample_table)))) = 0"
proof -
  have f: "fault sample_runtime = None"
    by (simp add: sample_runtime_def)
  have g: "fault faulty_runtime = Some (StorageUnavailable (js ''throttled''))"
    by (simp add: faulty_runtime_def)
  have a: "length (logs (body (fst (ReadRecent_handler sample_runtime \<lparr>event_body = None\<rparr> sample_table)))) = 2"
    by (simp add: ReadRecent_handler_ok [OF f] sample_recent)
  have b: "length (logs (body (fst (ReadRecent_handler faulty_runtime \<lparr>event_body = None\<rparr> sample_table)))) = 0"
    by (simp add: ReadRecent_handler_fault [OF g])
  show ?thesis
    using a b recent_count_is_length [of sample_runtime "\<lparr>event_body = None\<rparr>" sample_table]
      recent_count_is_length [of faulty_runtime "\<lparr>event_body = None\<rparr>" sample_table]
    by simp
qed

text \<open>
  Claim C9. An array is truthy and its \<open>typeof\<close> is \<open>object\<close>, so it passes the
  first check of the validator; having no \<open>severity\<close>, it gets \<open>Missing required
  field: severity\<close> and not the error of a payload that is not an object. The instance
  for the empty array follows.
\<close>

theorem array_payload_passes_object_check:
  "ToBoolean (JArray xs) \<and> typeof (JArray xs) = js ''object''
   \<and> validateLogInput (JArray xs) = Inr (invalid (js ''Missing required field: severity''))
   \<and> validateLogInput (JArray xs)
       \<noteq> Inr (invalid (js ''Request body must be a valid JSON object''))"
  by (simp add: validateLogInput_array invalid_def js_def)

theorem array_payload_passes_object_check_witness:
  "validateLogInput (JArray []) = Inr (invalid (js ''Missing required field: severity''))
   \<and> validateLogInput (JArray [])
       \<noteq> Inr (invalid (js ''Request body must be a valid JSON object''))"
  using array_payload_passes_object_check [of "[]"] by blast

text \<open>
  Claim C10, as amended. When \<open>event.body\<close> is absent or the empty string, the ingest
  handler parses \<open>{}\<close> in its place and answers 400 with \<open>Missing required field:
  severity\<close>; when it is a non-empty string on which \<open>JSON.parse\<close> throws, the handler
  answers 400 with \<open>Invalid JSON in request body\<close>. In both cases the table is not
  changed. That \<open>JSON.parse\<close> maps the text \<open>{}\<close> to the empty object is the one
  fact about the platform's parser that is used.
\<close>

theorem ingest_body_absent_or_unparseable:
  "(JSON_parse rt (js ''{}'') = Inr (JObject [])
      \<and> (event_body ev = None \<or> event_body ev = Some [])
    \<longrightarrow> Ingest_handler rt ev t
          = (failure 400 (Some (js ''Missing required field: severity'')), t))
   \<and> (\<forall>s e. event_body ev = Some s \<and> s \<noteq> [] \<and> JSON_parse rt s = Inl e
    \<longrightarrow> Ingest_handler rt ev t
          = (failure 400 (Some (js ''Invalid JSON in request body'')), t))"
proof (intro conjI impI allI)
  assume a: "JSON_parse rt (js ''{}'') = Inr (JObject [])
      \<and> (event_body ev = None \<or> event_body ev = Some [])"
  then have d: "or_default (event_body ev) (js ''{}'') = js ''{}''"
    by auto
  have v: "validateLogInput (JObject []) = Inr (invalid (js ''Missing required field: severity''))"
    by (simp add: validateLogInput_def js_def)
  have n: "\<not> isValid (invalid (js ''Missing required field: severity''))"
    by (simp add: invalid_def)
  from a d have p: "JSON_parse rt (or_default (event_body ev) (js ''{}'')) = Inr (JObject [])"
    by simp
  from Ingest_handler_invalid [OF p v n, of t]
  show "Ingest_handler rt ev t
          = (failure 400 (Some (js ''Missing required field: severity'')), t)"
    by (simp add: invalid_def)
next
  fix s e
  assume a: "event_body ev = Some s \<and> s \<noteq> [] \<and> JSON_parse rt s = Inl e"
  then have "JSON_parse rt (or_default (event_body ev) (js ''{}'')) = Inl e"
    by simp
  then show "Ingest_handler rt ev t
          = (failure 400 (Some (js ''Invalid JSON in request body'')), t)"
    by (rule Ingest_handler_parse_error)
qed

theorem ingest_body_absent_or_unparseable_witness:
  "JSON_parse sample_runtime (js ''{}'') = Inr (JObject [])
   \<and> Ingest_handler sample_runtime \<lparr>event_body = None\<rparr> sample_table
       = (failure 400 (Some (js ''Missing required field: severity'')), sample_table)
   \<and> JSON_parse sample_runtime (js ''not json'') = Inl (SyntaxError (js ''Unexpected token''))
   \<and> js ''not json'' \<noteq> []
   \<and> Ingest_handler sample_runtime \<lparr>event_body = Some (js ''not json'')\<rparr> sample_table
       = (failure 400 (Some (js ''Invalid JSON in request body'')), sample_table)"
proof -
  have n: "js ''not json'' \<noteq> []"
    by (simp add: js_def)
  show ?thesis
    using sample_parse_facts(1,2) n
      ingest_body_absent_or_unparseable [of sample_runtime "\<lparr>event_body = None\<rparr>" sample_table]
      ingest_body_absent_or_unparseable
        [of sample_runtime "\<lparr>event_body = Some (js ''not json'')\<rparr>" sample_table]
    by simp
qed

text \<open>
  The claim as it was stated fails for the empty string: as a body it is present, and
  \<open>JSON.parse\<close> throws on it, but \<open>event.body || '{}'\<close> replaces it by \<open>{}\<close> and the
  answer is \<open>Missing required field: severity\<close>.
\<close>

theorem empty_body_counterexample:
  "event_body \<lparr>event_body = Some []\<rparr> = Some []
   \<and> JSON_parse sample_runtime [] = Inl (SyntaxError (js ''Unexpected token''))
   \<and> Ingest_handler sample_runtime \<lparr>event_body = Some []\<rparr> sample_table
       = (failure 400 (Some (js ''Missing required field: severity'')), sample_table)
   \<and> Ingest_handler sample_runtime \<lparr>event_body = Some []\<rparr> sample_table
       \<noteq> (failure 400 (Some (js ''Invalid JSON in request body'')), sample_table)"
proof -
  have v: "validateLogInput (JObject []) = Inr (invalid (js ''Missing required field: severity''))"
    by (simp add: validateLogInput_def js_def)
  have n: "\<not> isValid (invalid (js ''Missing required field: severity''))"
    by (simp add: invalid_def)
  have p: "JSON_parse sample_runtime (or_default (event_body \<lparr>event_body = Some []\<rparr>) (js ''{}''))
             = Inr (JObject [])"
    using sample_parse_facts(1) by simp
  have h: "Ingest_handler sample_runtime \<lparr>event_body = Some []\<rparr> sample_table
       = (failure 400 (Some (js ''Missing required field: severity'')), sample_table)"
    using Ingest_handler_invalid [OF p v n, of sample_table] by (simp add: invalid_def)
  have d: "failure 400 (Some (js ''Missing required field: severity''))
             \<noteq> failure 400 (Some (js ''Invalid JSON in request body''))"
    by (simp add: failure_def js_def)
  show ?thesis
    using sample_parse_facts(3) h d by simp
qed

end
